theory Spec2Isabelle
  imports Complex_Main "HOL-Library.Log_Nat"
begin

section \<open>JavaScript numbers\<close>

text \<open>
  The backend is JavaScript: every number is an IEEE 754 binary64 value and every
  arithmetic operator rounds its exact result to the nearest such value, ties to the
  even significand. A finite number is modelled by its exact rational value.
  \<open>ilog2 x\<close> is the binary exponent of a positive \<open>x\<close> (\<open>2 ^ e \<le> x < 2 ^ (e + 1)\<close>),
  \<open>fl64\<close> rounds a rational to binary64 (53 significant bits, gradual underflow below
  \<open>2 ^ -1022\<close>). Overflow to \<open>Infinity\<close> (from \<open>2 ^ 1024\<close> on) is left out:
  the recommendation arithmetic stays below \<open>2 ^ 28\<close> on every request that passes
  validation.
\<close>

definition ilog2 :: "rat \<Rightarrow> int" where
  "ilog2 x = (if 1 \<le> x then bitlen \<lfloor>x\<rfloor> - 1 else - bitlen (\<lceil>1 / x\<rceil> - 1))"

definition round_half_even :: "rat \<Rightarrow> int" where
  "round_half_even q =
     (let f = \<lfloor>q\<rfloor>; r = q - of_int f
      in if r < 1 / 2 then f else if 1 / 2 < r then f + 1 else if even f then f else f + 1)"

definition fl64 :: "rat \<Rightarrow> rat" where
  "fl64 x =
     (if x = 0 then 0
      else let e = max (ilog2 \<bar>x\<bar>) (- 1022); u = 2 powi (e - 52)
           in of_int (round_half_even (x / u)) * u)"

text \<open>
  The operators \<open>*\<close>, \<open>+\<close>, \<open>/\<close> on numbers. A decimal literal of the source text
  is the binary64 value nearest to it: \<open>js_lit m k\<close> is the literal with digits \<open>m\<close>, the
  last \<open>k\<close> of them after the point, so \<open>1.2\<close> is \<open>js_lit 12 1\<close>.
\<close>

definition js_mul :: "rat \<Rightarrow> rat \<Rightarrow> rat" where
  "js_mul x y = fl64 (x * y)"

definition js_add :: "rat \<Rightarrow> rat \<Rightarrow> rat" where
  "js_add x y = fl64 (x + y)"

definition js_div :: "rat \<Rightarrow> rat \<Rightarrow> rat" where
  "js_div x y = fl64 (x / y)"

definition js_lit :: "int \<Rightarrow> nat \<Rightarrow> rat" where
  "js_lit m k = fl64 (of_int m / 10 ^ k)"

text \<open>
  \<open>Math.round\<close>: the nearest integer, a tie going towards \<open>+Infinity\<close>; the result is
  computed exactly, not through a rounded addition.
\<close>

definition Math_round :: "rat \<Rightarrow> int" where
  "Math_round x = \<lfloor>x + 1 / 2\<rfloor>"

section \<open>Printing numbers\<close>

text \<open>
  A template literal prints an integer-valued number in decimal. \<open>toLocaleString()\<close>
  is taken in the \<open>en-US\<close> locale, the default of the Node.js runtime: digits in groups
  of three separated by commas.
\<close>

definition digit_char :: "nat \<Rightarrow> char" where
  "digit_char d = ''0123456789'' ! d"

fun show_nat :: "nat \<Rightarrow> string" where
  "show_nat n = (if n < 10 then [digit_char n] else show_nat (n div 10) @ [digit_char (n mod 10)])"

declare show_nat.simps [simp del]

fun group3 :: "string \<Rightarrow> string" where
  "group3 (a # b # c # d # rest) = a # b # c # CHR '','' # group3 (d # rest)"
| "group3 ds = ds"

definition toLocaleString :: "int \<Rightarrow> string" where
  "toLocaleString n =
     (if n < 0 then ''-'' else []) @ rev (group3 (rev (show_nat (nat \<bar>n\<bar>))))"

text \<open>The object the engine returns.\<close>

record recommendation =
  type :: string
  coverage :: string
  duration :: string
  explanation :: string

section \<open>Request bodies and the validation middleware\<close>

text \<open>
  A value of a parsed JSON body. \<open>JUndefined\<close> is what destructuring gives for an
  absent key, \<open>JInfinity\<close> is a number literal too large for binary64 (either sign),
  \<open>JObject\<close> is any array or object: the middleware never looks inside one.
  A body maps each key to its value.
\<close>

datatype jsval = JUndefined | JNull | JBool bool | JNum rat | JInfinity | JStr string | JObject

type_synonym body = "string \<Rightarrow> jsval"

datatype response =
    Status400 string "string list option"
  | Success recommendation string
  | Status500 string string

text \<open>\<open>!v\<close> is true for \<open>undefined\<close>, \<open>null\<close>, \<open>false\<close>, \<open>0\<close> and the empty string.\<close>

fun falsy :: "jsval \<Rightarrow> bool" where
  "falsy JUndefined = True"
| "falsy JNull = True"
| "falsy (JBool b) = (\<not> b)"
| "falsy (JNum x) = (x = 0)"
| "falsy JInfinity = False"
| "falsy (JStr s) = (s = [])"
| "falsy JObject = False"

fun Number_isInteger :: "jsval \<Rightarrow> bool" where
  "Number_isInteger (JNum x) = (of_int \<lfloor>x\<rfloor> = x)"
| "Number_isInteger v = False"

text \<open>
  \<open>v < c\<close> and \<open>v > c\<close> against a numeric literal. By the short-circuit of \<open>||\<close> they
  are evaluated only for a \<open>v\<close> that \<open>Number.isInteger\<close> accepted.
\<close>

fun js_less :: "jsval \<Rightarrow> rat \<Rightarrow> bool" where
  "js_less (JNum x) c = (x < c)"
| "js_less v c = False"

fun js_greater :: "jsval \<Rightarrow> rat \<Rightarrow> bool" where
  "js_greater (JNum x) c = (c < x)"
| "js_greater v c = False"

text \<open>\<open>Array.prototype.includes\<close> on an array of strings.\<close>

fun array_includes :: "string list \<Rightarrow> jsval \<Rightarrow> bool" where
  "array_includes xs (JStr s) = (s \<in> set xs)"
| "array_includes xs v = False"

text \<open>Lines 29 to 66; \<open>Inr ()\<close> is the call of \<open>next()\<close>.\<close>

definition validateRecommendationInput :: "body \<Rightarrow> response + unit" where
  "validateRecommendationInput b =
     (let age = b ''age''; income = b ''income''; dependents = b ''dependents'';
          riskTolerance = b ''riskTolerance''
      in if falsy age \<or> falsy income \<or> falsy dependents \<or> falsy riskTolerance then
           Inl (Status400 ''Missing required fields''
                  (Some [''age'', ''income'', ''dependents'', ''riskTolerance'']))
         else if \<not> Number_isInteger age \<or> js_less age 18 \<or> js_greater age 80 then
           Inl (Status400 ''Age must be an integer between 18 and 80'' None)
         else if \<not> Number_isInteger income \<or> js_less income 20000
                 \<or> js_greater income 10000000 then
           Inl (Status400 ''Income must be an integer between 20,000 and 10,000,000'' None)
         else if \<not> Number_isInteger dependents \<or> js_less dependents 0
                 \<or> js_greater dependents 10 then
           Inl (Status400 ''Dependents must be an integer between 0 and 10'' None)
         else if \<not> array_includes [''Low'', ''Medium'', ''High''] riskTolerance then
           Inl (Status400 ''Risk tolerance must be Low, Medium, or High'' None)
         else Inr ())"

section \<open>The recommendation engine\<close>

text \<open>The argument of the engine: three integer-valued numbers and a string.\<close>

record profile =
  age :: int
  income :: int
  dependents :: int
  riskTolerance :: string

text \<open>Lines 71 and 76 to 78: ten times the income, plus 250000 for each dependent.\<close>

definition base_coverage :: "profile \<Rightarrow> rat" where
  "base_coverage p =
     (let c = js_mul (of_int (income p)) 10
      in if dependents p > 0
         then js_add c (js_mul (of_int (dependents p)) 250000)
         else c)"

text \<open>Lines 81 to 85.\<close>

definition age_adjust :: "int \<Rightarrow> rat \<Rightarrow> rat" where
  "age_adjust a c =
     (if a < 30 then js_mul c (js_lit 12 1)
      else if a > 50 then js_mul c (js_lit 8 1)
      else c)"

text \<open>
  Lines 88 to 104: the \<open>switch\<close> has no \<open>default\<close>; any other string leaves the four
  variables as they are. The state is (type, coverage, duration, explanation).
\<close>

definition risk_adjust :: "string \<Rightarrow> string \<times> rat \<times> nat \<times> string \<Rightarrow> string \<times> rat \<times> nat \<times> string" where
  "risk_adjust r s =
     (case s of (ty, c, dur, expl) \<Rightarrow>
        if r = ''Low'' then
          (ty, js_mul c (js_lit 8 1), 15,
           ''Conservative profile: moderate coverage, shorter term.'')
        else if r = ''Medium'' then
          (ty, c, 20, ''Balanced profile: standard coverage and term.'')
        else if r = ''High'' then
          (''Whole Life'', js_mul c (js_lit 13 1), 30,
           ''Aggressive profile: higher coverage, longer term, whole life.'')
        else (ty, c, dur, expl))"

text \<open>Line 107.\<close>

definition round_coverage :: "rat \<Rightarrow> rat" where
  "round_coverage c = js_mul (of_int (Math_round (js_div c 1000))) 1000"

text \<open>The four variables after line 107, before the result object is built.\<close>

definition engine_state :: "profile \<Rightarrow> string \<times> rat \<times> nat \<times> string" where
  "engine_state p =
     (case risk_adjust (riskTolerance p)
             (''Term Life'', age_adjust (age p) (base_coverage p), 20, [])
      of (ty, c, dur, expl) \<Rightarrow> (ty, round_coverage c, dur, expl))"

definition coverageAmount :: "profile \<Rightarrow> rat" where
  "coverageAmount p = fst (snd (engine_state p))"

text \<open>
  \<open>coverage\<close> is \<open>Math.round(...) * 1000\<close>, an integer-valued number
  (lemma \<open>round_coverage_integral\<close>), so \<open>toLocaleString\<close> prints its integer value.
\<close>

definition getRecommendation :: "profile \<Rightarrow> recommendation" where
  "getRecommendation p =
     (case engine_state p of (ty, c, dur, expl) \<Rightarrow>
        \<lparr> type = ty,
          coverage = ''$'' @ toLocaleString \<lfloor>c\<rfloor>,
          duration = show_nat dur @ '' years'',
          explanation = expl \<rparr>)"

section \<open>The handler of POST /recommendation\<close>

text \<open>
  The storage pool is a parameter: \<open>pool.query\<close> either rejects with an error or
  resolves with the identifiers of the returned rows. The clock is a parameter too.
  The handler returns the response and the lines written to the console.
\<close>

datatype query_outcome = Rejected string | Resolved "int list"

datatype log_entry = Log string | Error string

definition insert_query :: string where
  "insert_query =
     ''INSERT INTO submissions (age, income, dependents, risk_tolerance, '' @
     ''recommendation_type, coverage, duration, explanation) '' @
     ''VALUES ($1, $2, $3, $4, $5, $6, $7, $8) RETURNING id''"

definition show_int :: "int \<Rightarrow> string" where
  "show_int n = (if n < 0 then ''-'' @ show_nat (nat (- n)) else show_nat (nat n))"

text \<open>
  The destructured body as the engine's argument. Whenever the middleware called
  \<open>next()\<close> the three numbers are integers and the fourth field is a string
  (lemma \<open>validated_body_profile\<close>), which is all the engine is written for.
\<close>

definition body_profile :: "body \<Rightarrow> profile option" where
  "body_profile b =
     (case (b ''age'', b ''income'', b ''dependents'', b ''riskTolerance'') of
        (JNum a, JNum i, JNum d, JStr r) \<Rightarrow>
          if of_int \<lfloor>a\<rfloor> = a \<and> of_int \<lfloor>i\<rfloor> = i \<and> of_int \<lfloor>d\<rfloor> = d
          then Some \<lparr> age = \<lfloor>a\<rfloor>, income = \<lfloor>i\<rfloor>, dependents = \<lfloor>d\<rfloor>, riskTolerance = r \<rparr>
          else None
      | _ \<Rightarrow> None)"

text \<open>
  Lines 130 to 157: the inner \<open>try\<close>. A rejected query, and a resolved one without
  rows (reading \<open>rows[0].id\<close> throws), both end in the \<open>catch\<close>, which only logs.
  A console line is kept up to the message of the error; the stack trace that follows
  the message of a thrown error is not modelled.
\<close>

definition store_submission ::
  "(string \<Rightarrow> jsval list \<Rightarrow> query_outcome) \<Rightarrow> body \<Rightarrow> recommendation \<Rightarrow> log_entry list" where
  "store_submission pool_query b rec =
     (let values = [b ''age'', b ''income'', b ''dependents'', b ''riskTolerance'',
                    JStr (type rec), JStr (coverage rec), JStr (duration rec),
                    JStr (explanation rec)]
      in case pool_query insert_query values of
           Resolved (row_id # rows) \<Rightarrow>
             [Log (''Recommendation stored with ID: '' @ show_int row_id)]
         | Resolved [] \<Rightarrow>
             [Error (''Database error: TypeError: Cannot read properties of undefined '' @
                     ''(reading 'id')'')]
         | Rejected e \<Rightarrow> [Error (''Database error: '' @ e)])"

text \<open>Lines 123 to 172, behind the middleware.\<close>

definition post_recommendation ::
  "(string \<Rightarrow> jsval list \<Rightarrow> query_outcome) \<Rightarrow> string \<Rightarrow> body \<Rightarrow> response \<times> log_entry list" where
  "post_recommendation pool_query now b =
     (case validateRecommendationInput b of
        Inl res \<Rightarrow> (res, [])
      | Inr u \<Rightarrow>
          (case body_profile b of
             Some p \<Rightarrow>
               (let recommendation = getRecommendation p;
                    logged = store_submission pool_query b recommendation
                in (Success recommendation now, logged))
           | None \<Rightarrow>
               (Status500 ''Internal server error'' ''Failed to generate recommendation'',
                [Error ''Recommendation generation error:''])))"

section \<open>The specification's side\<close>

text \<open>The invariants of an ApplicantProfile (section 3 of the specification).\<close>

definition valid_profile :: "profile \<Rightarrow> bool" where
  "valid_profile p \<longleftrightarrow>
     18 \<le> age p \<and> age p \<le> 80 \<and> 20000 \<le> income p \<and> income p \<le> 10000000 \<and>
     0 \<le> dependents p \<and> dependents p \<le> 10 \<and>
     (riskTolerance p = ''Low'' \<or> riskTolerance p = ''Medium'' \<or> riskTolerance p = ''High'')"

text \<open>
  Steps 1 to 5 of section 4.2 in exact rational arithmetic: the base, the dependents,
  the age multiplier, the risk multiplier, and rounding half up on the quotient by 1000.
\<close>

definition age_multiplier :: "int \<Rightarrow> rat" where
  "age_multiplier a = (if a < 30 then 12 / 10 else if a > 50 then 8 / 10 else 1)"

definition risk_multiplier :: "string \<Rightarrow> rat" where
  "risk_multiplier r = (if r = ''Low'' then 8 / 10 else if r = ''High'' then 13 / 10 else 1)"

definition round_half_up_1000 :: "rat \<Rightarrow> rat" where
  "round_half_up_1000 c = of_int \<lfloor>c / 1000 + 1 / 2\<rfloor> * 1000"

definition exact_coverage :: "profile \<Rightarrow> rat" where
  "exact_coverage p =
     round_half_up_1000
       ((of_int (income p) * 10 + of_int (dependents p) * 250000)
          * age_multiplier (age p) * risk_multiplier (riskTolerance p))"

text \<open>
  The body that carries a profile, field by field, as a JSON client sends it.
\<close>

definition profile_body :: "profile \<Rightarrow> body" where
  "profile_body p =
     (\<lambda>k. JUndefined)
       (''age'' := JNum (of_int (age p)), ''income'' := JNum (of_int (income p)),
        ''dependents'' := JNum (of_int (dependents p)),
        ''riskTolerance'' := JStr (riskTolerance p))"

text \<open>
  The vocabulary of the validation contract: the four required fields, a field that is
  absent or empty, and a field that is an integer within a range.
\<close>

definition required_fields :: "string list" where
  "required_fields = [''age'', ''income'', ''dependents'', ''riskTolerance'']"

definition absent_or_empty :: "jsval \<Rightarrow> bool" where
  "absent_or_empty v \<longleftrightarrow> v = JUndefined \<or> v = JNull \<or> v = JBool False \<or> v = JStr []"

definition integer_between :: "int \<Rightarrow> int \<Rightarrow> jsval \<Rightarrow> bool" where
  "integer_between lo hi v =
     (case v of JNum x \<Rightarrow> of_int \<lfloor>x\<rfloor> = x \<and> of_int lo \<le> x \<and> x \<le> of_int hi | _ \<Rightarrow> False)"

section \<open>Rounding to binary64\<close>

text \<open>
  From 1 on, the exponent brackets its argument, rounding moves a number by at most half
  a unit in the last place, and a number that is a dyadic fraction up to a relative
  error of \<open>2 ^ -54\<close> rounds to that fraction.
\<close>

lemma ilog2_bounds:
  assumes "1 \<le> x"
  shows "0 \<le> ilog2 x" and "2 ^ nat (ilog2 x) \<le> x" and "x < 2 * 2 ^ nat (ilog2 x)"
proof -
  have pos: "0 < \<lfloor>x\<rfloor>" using assms by linarith
  have e: "ilog2 x = bitlen \<lfloor>x\<rfloor> - 1" using assms by (simp add: ilog2_def)
  from bitlen_bounds [OF pos]
  have lo: "2 ^ nat (bitlen \<lfloor>x\<rfloor> - 1) \<le> \<lfloor>x\<rfloor>" and hi: "\<lfloor>x\<rfloor> < 2 ^ nat (bitlen \<lfloor>x\<rfloor>)"
    by simp_all
  have b1: "1 \<le> bitlen \<lfloor>x\<rfloor>"
    using pos bitlen_eq_zero_iff [of "\<lfloor>x\<rfloor>"] bitlen_nonneg [of "\<lfloor>x\<rfloor>"] by linarith
  show "0 \<le> ilog2 x" using b1 e by simp
  have "(of_int (2 ^ nat (ilog2 x)) :: rat) \<le> of_int \<lfloor>x\<rfloor>"
    using lo e by (simp only: of_int_le_iff)
  then show "2 ^ nat (ilog2 x) \<le> x" by (simp add: le_floor_iff)
  have "nat (bitlen \<lfloor>x\<rfloor>) = Suc (nat (ilog2 x))" using b1 e by simp
  with hi have "\<lfloor>x\<rfloor> < 2 * 2 ^ nat (ilog2 x)" by simp
  then have "\<lfloor>x\<rfloor> + 1 \<le> 2 * 2 ^ nat (ilog2 x)" by simp
  then have "(of_int (\<lfloor>x\<rfloor> + 1) :: rat) \<le> of_int (2 * 2 ^ nat (ilog2 x))"
    by (simp only: of_int_le_iff)
  moreover have "x < of_int (\<lfloor>x\<rfloor> + 1)" by linarith
  ultimately show "x < 2 * 2 ^ nat (ilog2 x)" by simp
qed

lemma round_half_even_near:
  assumes "\<bar>q - of_int m\<bar> < 1 / 2"
  shows "round_half_even q = m"
proof -
  have "of_int (m - 1) \<le> q" and "q < of_int (m + 1)"
    using assms unfolding abs_less_iff by simp_all
  then have "m - 1 \<le> \<lfloor>q\<rfloor>" and "\<lfloor>q\<rfloor> < m + 1"
    by (simp_all only: le_floor_iff floor_less_iff)
  then have "\<lfloor>q\<rfloor> = m \<or> \<lfloor>q\<rfloor> = m - 1" by linarith
  then show ?thesis
  proof
    assume f: "\<lfloor>q\<rfloor> = m"
    have "q - of_int m < 1 / 2" using assms unfolding abs_less_iff by simp
    then show ?thesis by (simp add: round_half_even_def Let_def f)
  next
    assume f: "\<lfloor>q\<rfloor> = m - 1"
    have "1 / 2 < q - of_int (m - 1)" using assms unfolding abs_less_iff by simp
    then show ?thesis by (simp add: round_half_even_def Let_def f)
  qed
qed

lemma round_half_even_err: "\<bar>of_int (round_half_even q) - q\<bar> \<le> 1 / 2"
proof -
  have "of_int \<lfloor>q\<rfloor> \<le> q" "q < of_int \<lfloor>q\<rfloor> + 1" by linarith+
  then show ?thesis
    by (auto simp add: round_half_even_def Let_def abs_le_iff)
qed

lemma fl64_unfold:
  assumes "1 \<le> x"
  shows "fl64 x = of_int (round_half_even (x * 2 ^ 52 / 2 ^ nat (ilog2 x))) * 2 ^ nat (ilog2 x) / 2 ^ 52"
proof -
  have e: "0 \<le> ilog2 x" using assms by (rule ilog2_bounds)
  have "(2::rat) powi (ilog2 x - 52) = 2 powi (ilog2 x) / 2 powi 52"
    by (simp add: power_int_diff)
  also have "\<dots> = 2 ^ nat (ilog2 x) / 2 ^ 52"
    using e by (simp add: power_int_def)
  finally have u: "(2::rat) powi (ilog2 x - 52) = 2 ^ nat (ilog2 x) / 2 ^ 52" .
  have mx: "max (ilog2 \<bar>x\<bar>) (- 1022) = ilog2 x" using e assms by simp
  have "fl64 x = of_int (round_half_even (x / 2 powi (ilog2 x - 52))) * 2 powi (ilog2 x - 52)"
    using assms mx by (simp add: fl64_def Let_def)
  also have "\<dots> = of_int (round_half_even (x / (2 ^ nat (ilog2 x) / 2 ^ 52))) * (2 ^ nat (ilog2 x) / 2 ^ 52)"
    by (simp only: u)
  finally show ?thesis by simp
qed

lemma fl64_err:
  assumes "1 \<le> x"
  shows "\<bar>fl64 x - x\<bar> \<le> x / 2 ^ 53"
proof -
  define P :: rat where "P = 2 ^ nat (ilog2 x)"
  have P: "0 < P" "P \<le> x" using ilog2_bounds(2) [OF assms] by (simp_all add: P_def)
  define q where "q = x * 2 ^ 52 / P"
  have x: "x = q * P / 2 ^ 52" using P by (simp add: q_def)
  have f: "fl64 x = of_int (round_half_even q) * P / 2 ^ 52"
    using fl64_unfold [OF assms] by (simp only: P_def q_def)
  have "fl64 x - x = of_int (round_half_even q) * P / 2 ^ 52 - q * P / 2 ^ 52"
    using f x by linarith
  then have "fl64 x - x = (of_int (round_half_even q) - q) * (P / 2 ^ 52)"
    by (simp add: algebra_simps)
  moreover have c: "0 \<le> P / 2 ^ 52" using P by simp
  ultimately have "\<bar>fl64 x - x\<bar> = \<bar>of_int (round_half_even q) - q\<bar> * (P / 2 ^ 52)"
    by (simp only: abs_mult abs_of_nonneg [OF c])
  also have "\<dots> \<le> 1 / 2 * (P / 2 ^ 52)"
    using round_half_even_err [of q] P by (intro mult_right_mono) simp_all
  also have "\<dots> \<le> x / 2 ^ 53" using P by simp
  finally show ?thesis .
qed

lemma fl64_near:
  assumes "1 \<le> x" and "x < 2 ^ (52 - j)" and "j \<le> 52" and "\<bar>x - of_int k / 2 ^ j\<bar> \<le> x / 2 ^ 54"
  shows "fl64 x = of_int k / 2 ^ j"
proof -
  define E where "E = nat (ilog2 x)"
  define P :: rat where "P = 2 ^ E"
  have P: "0 < P" "P \<le> x" "x < 2 * P"
    using ilog2_bounds(2,3) [OF assms(1)] by (simp_all add: P_def E_def)
  have "P < 2 ^ (52 - j)" using P(2) assms(2) by (rule le_less_trans)
  then have Ej: "E < 52 - j" unfolding P_def by (rule power_less_imp_less_exp [rotated]) simp
  define m :: int where "m = k * 2 ^ (52 - j - E)"
  define Q :: rat where "Q = 2 ^ (52 - j - E)"
  have h: "(2::rat) ^ 52 = Q * P * 2 ^ j"
    using Ej assms(3) by (simp add: Q_def P_def power_add [symmetric])
  have "of_int k / 2 ^ j * 2 ^ 52 / P = of_int k / 2 ^ j * (Q * P * 2 ^ j) / P"
    by (simp only: h)
  also have "\<dots> = of_int k * Q" using P by simp
  finally have m: "of_int m = of_int k / 2 ^ j * 2 ^ 52 / P"
    by (simp add: m_def Q_def)
  have c: "0 \<le> 2 ^ 52 / P" using P by simp
  have "x * 2 ^ 52 / P - of_int m = (x - of_int k / 2 ^ j) * (2 ^ 52 / P)"
    by (simp add: m left_diff_distrib diff_divide_distrib)
  then have "\<bar>x * 2 ^ 52 / P - of_int m\<bar> = \<bar>x - of_int k / 2 ^ j\<bar> * (2 ^ 52 / P)"
    by (simp only: abs_mult abs_of_nonneg [OF c])
  also have "\<dots> \<le> x / 2 ^ 54 * (2 ^ 52 / P)"
    using assms(4) P by (intro mult_right_mono) simp_all
  also have "\<dots> < 1 / 2" using P by (simp add: field_simps)
  finally have "round_half_even (x * 2 ^ 52 / P) = m" by (rule round_half_even_near)
  then show ?thesis
    using fl64_unfold [OF assms(1)] P by (simp add: P_def [symmetric] E_def [symmetric] m)
qed

text \<open>Integers from 1 to \<open>2 ^ 52\<close> are binary64 values.\<close>

lemma fl64_int:
  assumes "1 \<le> n" and "n < 2 ^ 52"
  shows "fl64 (of_int n) = of_int n"
proof -
  have "1 \<le> (of_int n :: rat)" using assms(1) by simp
  moreover have "(of_int n :: rat) < 2 ^ (52 - 0)"
    using assms(2) of_int_less_iff [of n "2 ^ 52", where ?'a = rat] by simp
  moreover have "\<bar>of_int n - of_int n / 2 ^ 0\<bar> \<le> (of_int n :: rat) / 2 ^ 54"
    using assms(1) by simp
  ultimately have "fl64 (of_int n) = of_int n / 2 ^ 0"
    by (intro fl64_near) simp_all
  then show ?thesis by simp
qed

text \<open>Rounding is odd, and an integer rounds to an integer, however large.\<close>

lemma round_half_even_minus: "round_half_even (- q) = - round_half_even q"
proof (cases "of_int \<lfloor>q\<rfloor> = q")
  case True
  then obtain n where "q = of_int n" by metis
  then show ?thesis by (simp add: round_half_even_def Let_def)
next
  case False
  then have f: "\<lfloor>- q\<rfloor> = - \<lfloor>q\<rfloor> - 1"
    by (auto simp add: floor_minus ceiling_altdef)
  show ?thesis
    unfolding round_half_even_def Let_def f by (auto simp add: algebra_simps)
qed

lemma fl64_minus: "fl64 (- x) = - fl64 x"
  by (simp add: fl64_def Let_def round_half_even_minus)

lemma fl64_of_int_integral: "fl64 (of_int n) \<in> \<int>"
proof -
  have pos: "fl64 (of_int m) \<in> \<int>" if "1 \<le> m" for m :: int
  proof -
    define x :: rat where "x = of_int m"
    have x1: "1 \<le> x" using that by (simp add: x_def)
    define E where "E = nat (ilog2 x)"
    have u: "fl64 x = of_int (round_half_even (x * 2 ^ 52 / 2 ^ E)) * 2 ^ E / 2 ^ 52"
      unfolding E_def by (rule fl64_unfold [OF x1])
    show ?thesis
    proof (cases "52 \<le> E")
      case True
      then have "(2::rat) ^ E = 2 ^ (E - 52) * 2 ^ 52"
        by (metis le_add_diff_inverse2 power_add)
      then have "fl64 x = of_int (round_half_even (x * 2 ^ 52 / 2 ^ E) * 2 ^ (E - 52))"
        unfolding u by simp
      then show ?thesis unfolding x_def by (simp only: Ints_of_int)
    next
      case False
      then have "(2::rat) * 2 ^ E \<le> 2 ^ 52"
        using power_increasing [of "Suc E" 52 "2::rat"] by simp
      then have "x < 2 ^ 52"
        using ilog2_bounds(3) [OF x1] unfolding E_def by linarith
      then have "(of_int m :: rat) < of_int (2 ^ 52)" by (simp add: x_def)
      then have "m < 2 ^ 52" by (simp only: of_int_less_iff)
      then have "fl64 (of_int m) = of_int m" using that by (intro fl64_int)
      then show ?thesis by (simp only: Ints_of_int)
    qed
  qed
  consider "n = 0" | "1 \<le> n" | "1 \<le> - n" by linarith
  then show ?thesis
  proof cases
    case 1
    then show ?thesis by (simp add: fl64_def)
  next
    case 2
    then show ?thesis by (rule pos)
  next
    case 3
    then have "fl64 (of_int (- n)) \<in> \<int>" by (rule pos)
    then have "- fl64 (of_int n) \<in> \<int>" by (simp add: fl64_minus)
    then show ?thesis by (simp only: minus_in_Ints_iff)
  qed
qed

text \<open>The literals \<open>1.2\<close>, \<open>0.8\<close> and \<open>1.3\<close> of the engine.\<close>

lemma js_lit_12: "js_lit 12 1 = 5404319552844595 / 2 ^ 52"
  by code_simp

lemma js_lit_08: "js_lit 8 1 = 3602879701896397 / 2 ^ 52"
  by code_simp

lemma js_lit_13: "js_lit 13 1 = 5854679515581645 / 2 ^ 52"
  by code_simp

lemma base_coverage_exact:
  assumes "valid_profile p"
  shows "base_coverage p = of_int (income p * 10 + dependents p * 250000)"
proof -
  have i: "20000 \<le> income p" "income p \<le> 10000000" and d: "0 \<le> dependents p" "dependents p \<le> 10"
    using assms by (simp_all add: valid_profile_def)
  have a: "js_mul (of_int (income p)) 10 = of_int (income p * 10)"
    using fl64_int [of "income p * 10"] i by (simp add: js_mul_def)
  show ?thesis
  proof (cases "dependents p > 0")
    case False
    then have "dependents p = 0" using d by simp
    then show ?thesis using a by (simp add: base_coverage_def)
  next
    case True
    have b: "js_mul (of_int (dependents p)) 250000 = of_int (dependents p * 250000)"
      using fl64_int [of "dependents p * 250000"] True d by (simp add: js_mul_def)
    have "js_add (of_int (income p * 10)) (of_int (dependents p * 250000))
            = of_int (income p * 10 + dependents p * 250000)"
      using fl64_int [of "income p * 10 + dependents p * 250000"] True d i
      by (simp add: js_add_def)
    then show ?thesis using True a b by (simp add: base_coverage_def Let_def)
  qed
qed

lemma mul_12_exact:
  assumes "20000 \<le> n" and "n \<le> 10250000"
  shows "js_mul (of_int (n * 10)) (js_lit 12 1) = of_int (n * 12)"
proof -
  define N :: rat where "N = of_int n"
  have N: "20000 \<le> N" "N \<le> 10250000"
    using assms by (simp_all add: N_def)
  define x :: rat where "x = N * 10 * (5404319552844595 / 2 ^ 52)"
  have "1 \<le> x" and "x < 2 ^ (52 - 0)" and "\<bar>x - N * 12\<bar> \<le> x / 2 ^ 54"
    using N by (simp_all add: x_def abs_le_iff)
  then have "fl64 x = of_int (n * 12) / 2 ^ 0"
    by (intro fl64_near) (simp_all add: N_def)
  then show ?thesis unfolding js_mul_def js_lit_12 x_def N_def by simp
qed

lemma mul_08_exact:
  assumes "20000 \<le> n" and "n \<le> 10250000"
  shows "js_mul (of_int (n * 10)) (js_lit 8 1) = of_int (n * 8)"
proof -
  define N :: rat where "N = of_int n"
  have N: "20000 \<le> N" "N \<le> 10250000"
    using assms by (simp_all add: N_def)
  define x :: rat where "x = N * 10 * (3602879701896397 / 2 ^ 52)"
  have "1 \<le> x" and "x < 2 ^ (52 - 0)" and "\<bar>x - N * 8\<bar> \<le> x / 2 ^ 54"
    using N by (simp_all add: x_def abs_le_iff)
  then have "fl64 x = of_int (n * 8) / 2 ^ 0"
    by (intro fl64_near) (simp_all add: N_def)
  then show ?thesis unfolding js_mul_def js_lit_08 x_def N_def by simp
qed

lemma age_adjust_exact:
  assumes "20000 \<le> n" and "n \<le> 10250000"
  shows "age_adjust a (of_int (n * 10))
           = of_int (if a < 30 then n * 12 else if a > 50 then n * 8 else n * 10)"
  using mul_12_exact [OF assms] mul_08_exact [OF assms] unfolding age_adjust_def by simp

section \<open>The engine computes in binary64 what the exact steps give\<close>

text \<open>
  The coverage before the risk step is an even integer, computed without error. After
  the risk multiplier the exact value is a multiple of one fifth: either it ends in
  500 exactly, and then every operation up to the quotient by 1000 is exact, or it is at
  least one fifth away from such a value, far more than the rounding errors add up to.
\<close>

lemma round_coverage_exact:
  assumes w: "v = of_int w / 5" and lo: "128000 \<le> v" and hi: "v \<le> 160000000"
    and near: "\<bar>r - v\<bar> \<le> v / 2 ^ 52" and ex: "w mod 5000 = 2500 \<Longrightarrow> r = v"
  shows "round_coverage r = round_half_up_1000 v"
proof -
  define K where "K = \<lfloor>v / 1000 + 1 / 2\<rfloor>"
  have Kb: "of_int K \<le> v / 1000 + 1 / 2" "v / 1000 + 1 / 2 < of_int K + 1"
    unfolding K_def by linarith+
  have "(of_int 127 :: rat) < of_int K" and "(of_int K :: rat) < of_int 160002"
    using Kb lo hi by simp_all
  then have "127 < K" and "K < 160002"
    by (simp_all only: of_int_less_iff)
  then have "1 \<le> K * 1000" and "K * 1000 < 2 ^ 52"
    by simp_all
  then have times: "js_mul (of_int K) 1000 = of_int K * 1000"
    using fl64_int [of "K * 1000"] by (simp add: js_mul_def)
  have "Math_round (js_div r 1000) = K"
  proof (cases "w mod 5000 = 2500")
    case True
    define K' where "K' = w div 5000"
    have "w = 5000 * K' + 2500"
      using True mult_div_mod_eq [of 5000 w] by (simp add: K'_def)
    then have v: "v = of_int K' * 1000 + 500" using w by simp
    have r: "r = v" using True by (rule ex)
    define x :: rat where "x = of_int (2 * K' + 1) / 2 ^ 1"
    have x: "x = r / 1000" by (simp add: x_def r v)
    have "1 \<le> x" and "x < 2 ^ (52 - 1)" using lo hi r by (simp_all add: x)
    moreover have "\<bar>x - of_int (2 * K' + 1) / 2 ^ 1\<bar> \<le> x / 2 ^ 54"
      using \<open>1 \<le> x\<close> by (simp add: x_def)
    ultimately have "fl64 x = of_int (2 * K' + 1) / 2 ^ 1"
      by (intro fl64_near) simp_all
    then have "js_div r 1000 = of_int K' + 1 / 2"
      by (simp add: js_div_def x [symmetric])
    then have "Math_round (js_div r 1000) = \<lfloor>(of_int (K' + 1) :: rat)\<rfloor>"
      by (simp add: Math_round_def)
    moreover have "v / 1000 + 1 / 2 = of_int (K' + 1)"
      by (simp add: v add_divide_distrib)
    then have "K = \<lfloor>(of_int (K' + 1) :: rat)\<rfloor>"
      by (simp only: K_def)
    ultimately show ?thesis by simp
  next
    case False
    define W :: rat where "W = of_int w"
    have "(of_int (5000 * K - 2500) :: rat) \<le> of_int w"
      and "(of_int w :: rat) < of_int (5000 * K + 2500)"
      using Kb w by simp_all
    then have "5000 * K - 2500 \<le> w" and "w < 5000 * K + 2500"
      by (simp_all only: of_int_le_iff of_int_less_iff)
    moreover have "w \<noteq> 5000 * K - 2500"
    proof
      assume "w = 5000 * K - 2500"
      then have "w = 2500 + 5000 * (K - 1)" by simp
      then have "w mod 5000 = 2500 mod 5000" by (simp only: mod_mult_self2)
      with False show False by simp
    qed
    ultimately have "5000 * K - 2499 \<le> w" and "w \<le> 5000 * K + 2499" by simp_all
    then have "(of_int (5000 * K - 2499) :: rat) \<le> of_int w"
      and "(of_int w :: rat) \<le> of_int (5000 * K + 2499)"
      by (simp_all only: of_int_le_iff)
    then have Wb: "5000 * of_int K - 2499 \<le> W" "W \<le> 5000 * of_int K + 2499"
      by (simp_all add: W_def)
    have v: "v = W / 5" using w by (simp add: W_def)
    have rb: "r - v \<le> v / 2 ^ 52" "v - r \<le> v / 2 ^ 52"
      using near unfolding abs_le_iff by simp_all
    define q where "q = js_div r 1000"
    have "1 \<le> r / 1000" using rb lo by simp
    then have "\<bar>fl64 (r / 1000) - r / 1000\<bar> \<le> r / 1000 / 2 ^ 53" by (rule fl64_err)
    then have qb: "q - r / 1000 \<le> r / 1000 / 2 ^ 53" "r / 1000 - q \<le> r / 1000 / 2 ^ 53"
      unfolding abs_le_iff q_def js_div_def by simp_all
    have "of_int K \<le> q + 1 / 2" and "q + 1 / 2 < of_int K + 1"
      using qb rb Wb lo hi unfolding v by simp_all
    then have "\<lfloor>q + 1 / 2\<rfloor> = K" by (rule floor_unique)
    then show ?thesis by (simp add: Math_round_def q_def)
  qed
  then show ?thesis
    using times by (simp add: round_coverage_def round_half_up_1000_def K_def)
qed
lemma mul_round_exact:
  assumes w: "v = of_int w / 5" and lo: "128000 \<le> v" and hi: "v \<le> 160000000"
    and xv: "\<bar>x - v\<bar> \<le> x / 2 ^ 54"
  shows "round_coverage (fl64 x) = round_half_up_1000 v"
proof (rule round_coverage_exact [OF w lo hi])
  have xb: "x - v \<le> x / 2 ^ 54" "v - x \<le> x / 2 ^ 54"
    using xv unfolding abs_le_iff by simp_all
  have x1: "1 \<le> x" and x52: "x < 2 ^ (52 - 0)" using xb lo hi by simp_all
  have "\<bar>fl64 x - x\<bar> \<le> x / 2 ^ 53" using x1 by (rule fl64_err)
  then have "fl64 x - x \<le> x / 2 ^ 53" "x - fl64 x \<le> x / 2 ^ 53"
    unfolding abs_le_iff by simp_all
  then show "\<bar>fl64 x - v\<bar> \<le> v / 2 ^ 52"
    using xb lo unfolding abs_le_iff by simp
  assume "w mod 5000 = 2500"
  then have "w = 5 * (1000 * (w div 5000) + 500)"
    using mult_div_mod_eq [of 5000 w] by simp
  then have "v = of_int (1000 * (w div 5000) + 500) / 2 ^ 0"
    using w by simp
  then show "fl64 x = v"
    using fl64_near [OF x1 x52, of "1000 * (w div 5000) + 500"] xv by simp
qed

lemma risk_round_exact:
  assumes c: "160000 \<le> c" "c \<le> 123000000" "even c"
    and r: "r = ''Low'' \<or> r = ''Medium'' \<or> r = ''High''"
  shows "fst (snd (risk_adjust r (ty, of_int c, dur, e))) = y \<Longrightarrow>
           round_coverage y = round_half_up_1000 (of_int c * risk_multiplier r)"
proof -
  define C :: rat where "C = of_int c"
  have C: "160000 \<le> C" "C \<le> 123000000" using c by (simp_all add: C_def)
  obtain h where h: "c = 2 * h" using c(3) by (elim evenE)
  have low: "round_coverage (fl64 (C * (3602879701896397 / 2 ^ 52))) = round_half_up_1000 (C * (8 / 10))"
    using C by (intro mul_round_exact [where w = "4 * c"]) (simp_all add: C_def abs_le_iff)
  have high: "round_coverage (fl64 (C * (5854679515581645 / 2 ^ 52))) = round_half_up_1000 (C * (13 / 10))"
    using C by (intro mul_round_exact [where w = "13 * h"]) (simp_all add: C_def h abs_le_iff)
  have med: "round_coverage C = round_half_up_1000 C"
    using C by (intro round_coverage_exact [where w = "5 * c"]) (simp_all add: C_def)
  assume a: "fst (snd (risk_adjust r (ty, of_int c, dur, e))) = y"
  from r show ?thesis
  proof (elim disjE)
    assume l: "r = ''Low''"
    have "y = fl64 (C * (3602879701896397 / 2 ^ 52))"
      using a unfolding l risk_adjust_def js_mul_def js_lit_08 C_def by simp
    moreover have "risk_multiplier r = 8 / 10"
      unfolding l risk_multiplier_def by simp
    ultimately show ?thesis using low by (simp only: C_def)
  next
    assume m: "r = ''Medium''"
    have "y = C"
      using a unfolding m risk_adjust_def C_def by simp
    moreover have "risk_multiplier r = 1"
      unfolding m risk_multiplier_def by simp
    ultimately show ?thesis using med by (simp only: C_def mult_1_right)
  next
    assume h: "r = ''High''"
    have "y = fl64 (C * (5854679515581645 / 2 ^ 52))"
      using a unfolding h risk_adjust_def js_mul_def js_lit_13 C_def by simp
    moreover have "risk_multiplier r = 13 / 10"
      unfolding h risk_multiplier_def by simp
    ultimately show ?thesis using high by (simp only: C_def)
  qed
qed

lemma age_adjusted_exact:
  assumes "valid_profile p"
  shows "age_adjust (age p) (base_coverage p)
           = of_int (income p * 10 + dependents p * 250000) * age_multiplier (age p)"
proof -
  define n where "n = income p + dependents p * 25000"
  have n: "20000 \<le> n" "n \<le> 10250000"
    using assms by (simp_all add: valid_profile_def n_def)
  have b: "base_coverage p = of_int (n * 10)"
    using base_coverage_exact [OF assms] by (simp add: n_def algebra_simps)
  have eq: "(of_int (income p * 10 + dependents p * 250000) :: rat) = of_int n * 10"
    by (simp add: n_def algebra_simps)
  show ?thesis
    unfolding b eq age_adjust_exact [OF n] age_multiplier_def by simp
qed

lemma age_adjusted_int:
  assumes "valid_profile p"
  obtains c where "age_adjust (age p) (base_coverage p) = of_int c"
    and "160000 \<le> c" and "c \<le> 123000000" and "even c"
proof -
  define n where "n = income p + dependents p * 25000"
  have n: "20000 \<le> n" "n \<le> 10250000"
    using assms by (simp_all add: valid_profile_def n_def)
  have b: "base_coverage p = of_int (n * 10)"
    using base_coverage_exact [OF assms] by (simp add: n_def algebra_simps)
  define c where "c = (if age p < 30 then n * 12 else if age p > 50 then n * 8 else n * 10)"
  have "age_adjust (age p) (base_coverage p) = of_int c"
    unfolding b c_def by (rule age_adjust_exact [OF n])
  moreover have "160000 \<le> c" "c \<le> 123000000" "even c"
    using n by (simp_all add: c_def)
  ultimately show ?thesis by (rule that)
qed

lemma coverage_exact:
  assumes "valid_profile p"
  shows "coverageAmount p = exact_coverage p"
proof -
  obtain c where c: "age_adjust (age p) (base_coverage p) = of_int c"
    and cb: "160000 \<le> c" "c \<le> 123000000" "even c"
    using assms by (rule age_adjusted_int)
  have r: "riskTolerance p = ''Low'' \<or> riskTolerance p = ''Medium'' \<or> riskTolerance p = ''High''"
    using assms by (simp add: valid_profile_def)
  obtain ty y dur e where s: "risk_adjust (riskTolerance p) (''Term Life'', of_int c, 20, []) = (ty, y, dur, e)"
    by (metis prod_cases4)
  then have "fst (snd (risk_adjust (riskTolerance p) (''Term Life'', of_int c, 20, []))) = y"
    by simp
  then have "round_coverage y = round_half_up_1000 (of_int c * risk_multiplier (riskTolerance p))"
    by (rule risk_round_exact [OF cb r])
  moreover have "coverageAmount p = round_coverage y"
    by (simp add: coverageAmount_def engine_state_def c s)
  moreover have "of_int c = of_int (income p * 10 + dependents p * 250000) * age_multiplier (age p)"
    using age_adjusted_exact [OF assms] c by simp
  ultimately show ?thesis by (simp add: exact_coverage_def)
qed

section \<open>The result object\<close>

text \<open>What line 107 leaves in \<open>coverage\<close> is an integer, for any input.\<close>

lemma round_coverage_integral: "of_int \<lfloor>round_coverage c\<rfloor> = round_coverage c"
proof -
  have "round_coverage c = fl64 (of_int (Math_round (js_div c 1000) * 1000))"
    by (simp add: round_coverage_def js_mul_def)
  then have "round_coverage c \<in> \<int>" by (simp only: fl64_of_int_integral)
  then show ?thesis by (rule Ints_cases) simp
qed

lemma show_nat_15: "show_nat 15 = ''15''" by (simp add: show_nat.simps digit_char_def)
lemma show_nat_20: "show_nat 20 = ''20''" by (simp add: show_nat.simps digit_char_def)
lemma show_nat_30: "show_nat 30 = ''30''" by (simp add: show_nat.simps digit_char_def)
lemma toLocaleString_1250000: "toLocaleString 1250000 = ''1,250,000''"
  by (simp add: toLocaleString_def show_nat.simps digit_char_def)
lemma toLocaleString_780000: "toLocaleString 780000 = ''780,000''"
  by (simp add: toLocaleString_def show_nat.simps digit_char_def)

lemma getRecommendation_fields:
  "getRecommendation p =
     \<lparr> type = fst (engine_state p),
       coverage = ''$'' @ toLocaleString \<lfloor>coverageAmount p\<rfloor>,
       duration = show_nat (fst (snd (snd (engine_state p)))) @ '' years'',
       explanation = snd (snd (snd (engine_state p))) \<rparr>"
  by (simp add: getRecommendation_def coverageAmount_def split: prod.splits)

lemma engine_state_Low:
  "riskTolerance p = ''Low'' \<Longrightarrow>
     engine_state p =
       (''Term Life'', round_coverage (js_mul (age_adjust (age p) (base_coverage p)) (js_lit 8 1)),
        15, ''Conservative profile: moderate coverage, shorter term.'')"
  unfolding engine_state_def risk_adjust_def by simp

lemma engine_state_Medium:
  "riskTolerance p = ''Medium'' \<Longrightarrow>
     engine_state p =
       (''Term Life'', round_coverage (age_adjust (age p) (base_coverage p)),
        20, ''Balanced profile: standard coverage and term.'')"
  unfolding engine_state_def risk_adjust_def by simp

lemma engine_state_High:
  "riskTolerance p = ''High'' \<Longrightarrow>
     engine_state p =
       (''Whole Life'', round_coverage (js_mul (age_adjust (age p) (base_coverage p)) (js_lit 13 1)),
        30, ''Aggressive profile: higher coverage, longer term, whole life.'')"
  unfolding engine_state_def risk_adjust_def by simp

lemma engine_state_other:
  "riskTolerance p \<noteq> ''Low'' \<Longrightarrow> riskTolerance p \<noteq> ''Medium'' \<Longrightarrow> riskTolerance p \<noteq> ''High'' \<Longrightarrow>
     engine_state p =
       (''Term Life'', round_coverage (age_adjust (age p) (base_coverage p)), 20, [])"
  unfolding engine_state_def risk_adjust_def by simp

lemma coverage_after_age:
  assumes "valid_profile p"
  shows "coverageAmount p =
           round_half_up_1000 (age_adjust (age p) (base_coverage p) * risk_multiplier (riskTolerance p))"
  unfolding coverage_exact [OF assms] age_adjusted_exact [OF assms] exact_coverage_def
  by simp

lemma round_half_up_1000_mono: "x \<le> y \<Longrightarrow> round_half_up_1000 x \<le> round_half_up_1000 y"
  unfolding round_half_up_1000_def
  by (intro mult_right_mono iffD2 [OF of_int_le_iff] floor_mono) simp_all

lemma multipliers_nonneg: "0 \<le> age_multiplier a" "0 \<le> risk_multiplier r"
  by (simp_all add: age_multiplier_def risk_multiplier_def)

section \<open>The two worked examples\<close>

lemma valid_example_1:
  "valid_profile \<lparr>age = 30, income = 75000, dependents = 2, riskTolerance = ''Medium''\<rparr>"
  by (simp add: valid_profile_def)

lemma valid_example_2:
  "valid_profile \<lparr>age = 25, income = 50000, dependents = 0, riskTolerance = ''High''\<rparr>"
  by (simp add: valid_profile_def)

lemma exact_example_1:
  "exact_coverage \<lparr>age = 30, income = 75000, dependents = 2, riskTolerance = ''Medium''\<rparr> = 1250000"
  by (simp add: exact_coverage_def age_multiplier_def risk_multiplier_def round_half_up_1000_def floor_eq_iff)

lemma exact_example_2:
  "exact_coverage \<lparr>age = 25, income = 50000, dependents = 0, riskTolerance = ''High''\<rparr> = 780000"
  by (simp add: exact_coverage_def age_multiplier_def risk_multiplier_def round_half_up_1000_def floor_eq_iff)

text \<open>
  C2: for the profile \<open>{age: 30, income: 75000, dependents: 2, riskTolerance: "Medium"}\<close>
  the engine returns type "Term Life", coverage "$1,250,000", duration "20 years" and the
  explanation "Balanced profile: standard coverage and term."; for
  \<open>{age: 25, income: 50000, dependents: 0, riskTolerance: "High"}\<close> it returns type
  "Whole Life", coverage "$780,000" and duration "30 years".
\<close>

theorem end_to_end_examples:
  "getRecommendation \<lparr>age = 30, income = 75000, dependents = 2, riskTolerance = ''Medium''\<rparr>
     = \<lparr> type = ''Term Life'', coverage = ''$1,250,000'', duration = ''20 years'',
         explanation = ''Balanced profile: standard coverage and term.'' \<rparr>
   \<and> type (getRecommendation \<lparr>age = 25, income = 50000, dependents = 0, riskTolerance = ''High''\<rparr>)
       = ''Whole Life''
   \<and> coverage (getRecommendation \<lparr>age = 25, income = 50000, dependents = 0, riskTolerance = ''High''\<rparr>)
       = ''$780,000''
   \<and> duration (getRecommendation \<lparr>age = 25, income = 50000, dependents = 0, riskTolerance = ''High''\<rparr>)
       = ''30 years''"
proof -
  let ?p = "\<lparr>age = 30, income = 75000, dependents = 2, riskTolerance = ''Medium''\<rparr>"
  let ?q = "\<lparr>age = 25, income = 50000, dependents = 0, riskTolerance = ''High''\<rparr>"
  have "coverageAmount ?p = 1250000"
    using coverage_exact [OF valid_example_1] exact_example_1 by simp
  then have p: "\<lfloor>coverageAmount ?p\<rfloor> = 1250000" by simp
  have "coverageAmount ?q = 780000"
    using coverage_exact [OF valid_example_2] exact_example_2 by simp
  then have q: "\<lfloor>coverageAmount ?q\<rfloor> = 780000" by simp
  have sp: "engine_state ?p = (''Term Life'', round_coverage (age_adjust (age ?p) (base_coverage ?p)),
        20, ''Balanced profile: standard coverage and term.'')"
    by (rule engine_state_Medium) simp
  have sq: "engine_state ?q = (''Whole Life'', round_coverage (js_mul (age_adjust (age ?q) (base_coverage ?q)) (js_lit 13 1)),
        30, ''Aggressive profile: higher coverage, longer term, whole life.'')"
    by (rule engine_state_High) simp
  show ?thesis
    unfolding getRecommendation_fields p q sp sq
    by (simp add: show_nat_20 show_nat_30 toLocaleString_1250000 toLocaleString_780000)
qed

section \<open>Validation\<close>

text \<open>
  C1: a request whose four fields are present, of the right primitive type and within
  their ranges passes validation and reaches the engine; in particular a request with
  \<open>dependents = 0\<close> and every other field valid is accepted. The middleware does not do
  that: \<open>!dependents\<close> is true for the number 0, so the request below, valid in every
  field, is answered with "Missing required fields".
\<close>

theorem zero_dependents_rejected_as_missing:
  "validateRecommendationInput
     (profile_body \<lparr>age = 30, income = 75000, dependents = 0, riskTolerance = ''Medium''\<rparr>)
     = Inl (Status400 ''Missing required fields''
              (Some [''age'', ''income'', ''dependents'', ''riskTolerance'']))"
  by (simp add: validateRecommendationInput_def profile_body_def)

theorem zero_dependents_rejected_witness:
  "valid_profile \<lparr>age = 30, income = 75000, dependents = 0, riskTolerance = ''Medium''\<rparr>
   \<and> validateRecommendationInput
        (profile_body \<lparr>age = 30, income = 75000, dependents = 0, riskTolerance = ''Medium''\<rparr>)
       \<noteq> Inr ()"
  using zero_dependents_rejected_as_missing by (simp add: valid_profile_def)

lemma falsy_iff: "falsy v \<longleftrightarrow> absent_or_empty v \<or> v = JNum 0"
  by (cases v) (auto simp add: absent_or_empty_def)

lemma range_check_iff:
  "\<not> Number_isInteger v \<or> js_less v (of_int lo) \<or> js_greater v (of_int hi)
     \<longleftrightarrow> \<not> integer_between lo hi v"
  by (cases v) (auto simp add: integer_between_def)

lemma includes_iff:
  "array_includes [''Low'', ''Medium'', ''High''] v
     \<longleftrightarrow> v = JStr ''Low'' \<or> v = JStr ''Medium'' \<or> v = JStr ''High''"
  by (cases v) auto

lemma validate_chain:
  "validateRecommendationInput b =
     (if falsy (b ''age'') \<or> falsy (b ''income'') \<or> falsy (b ''dependents'')
           \<or> falsy (b ''riskTolerance'') then
        Inl (Status400 ''Missing required fields'' (Some required_fields))
      else if \<not> integer_between 18 80 (b ''age'') then
        Inl (Status400 ''Age must be an integer between 18 and 80'' None)
      else if \<not> integer_between 20000 10000000 (b ''income'') then
        Inl (Status400 ''Income must be an integer between 20,000 and 10,000,000'' None)
      else if \<not> integer_between 0 10 (b ''dependents'') then
        Inl (Status400 ''Dependents must be an integer between 0 and 10'' None)
      else if \<not> (b ''riskTolerance'' = JStr ''Low'' \<or> b ''riskTolerance'' = JStr ''Medium''
                  \<or> b ''riskTolerance'' = JStr ''High'') then
        Inl (Status400 ''Risk tolerance must be Low, Medium, or High'' None)
      else Inr ())"
  using range_check_iff [of "b ''age''" 18 80] range_check_iff [of "b ''income''" 20000 10000000]
    range_check_iff [of "b ''dependents''" 0 10] includes_iff [of "b ''riskTolerance''"]
  unfolding validateRecommendationInput_def Let_def required_fields_def
  by simp

text \<open>
  Of the bodies that carry a valid profile, the middleware lets through exactly those
  with at least one dependent.
\<close>

lemma profile_body_validated_iff:
  "validateRecommendationInput (profile_body p) = Inr ()
     \<longleftrightarrow> valid_profile p \<and> dependents p \<noteq> 0"
  unfolding validate_chain
  by (auto simp add: profile_body_def integer_between_def valid_profile_def)

lemma example_fields_nonzero:
  "a \<noteq> 0 \<Longrightarrow> i \<noteq> 0 \<Longrightarrow> d \<noteq> 0 \<Longrightarrow>
     \<forall>k \<in> set required_fields.
        profile_body \<lparr>age = a, income = i, dependents = d, riskTolerance = r\<rparr> k \<noteq> JNum 0"
  by (simp add: required_fields_def profile_body_def)

text \<open>
  C3, as the middleware has it: on a body in which no field is the number 0, validation
  stops at the first failing check and answers with one of five fixed responses. The
  presence check comes first and covers all four fields at once: when any of them is
  absent, null, false or an empty string the answer is "Missing required fields" with the
  list of all four names, whichever field is missing. Then the fields are checked in the
  order age, income, dependents, riskTolerance, type and range together: the answer is
  the message of the first field that is not an integer within its range, or not one of
  Low, Medium, High. So \<open>age = 17\<close> and \<open>age = 81\<close> get the age message,
  \<open>income = 19999\<close> the income message, \<open>dependents = 11\<close> the dependents message and
  \<open>riskTolerance = "Unknown"\<close> the risk tolerance message.
\<close>

theorem validation_reports_first_failure:
  assumes "\<forall>k \<in> set required_fields. b k \<noteq> JNum 0"
  shows "validateRecommendationInput b =
     (if \<exists>k \<in> set required_fields. absent_or_empty (b k) then
        Inl (Status400 ''Missing required fields'' (Some required_fields))
      else if \<not> integer_between 18 80 (b ''age'') then
        Inl (Status400 ''Age must be an integer between 18 and 80'' None)
      else if \<not> integer_between 20000 10000000 (b ''income'') then
        Inl (Status400 ''Income must be an integer between 20,000 and 10,000,000'' None)
      else if \<not> integer_between 0 10 (b ''dependents'') then
        Inl (Status400 ''Dependents must be an integer between 0 and 10'' None)
      else if b ''riskTolerance'' \<notin> {JStr ''Low'', JStr ''Medium'', JStr ''High''} then
        Inl (Status400 ''Risk tolerance must be Low, Medium, or High'' None)
      else Inr ())"
proof -
  from assms have "falsy (b ''age'') \<longleftrightarrow> absent_or_empty (b ''age'')"
    and "falsy (b ''income'') \<longleftrightarrow> absent_or_empty (b ''income'')"
    and "falsy (b ''dependents'') \<longleftrightarrow> absent_or_empty (b ''dependents'')"
    and "falsy (b ''riskTolerance'') \<longleftrightarrow> absent_or_empty (b ''riskTolerance'')"
    by (simp_all add: falsy_iff required_fields_def)
  then show ?thesis
    unfolding validate_chain by (simp add: required_fields_def)
qed

theorem validation_reports_first_failure_witness:
  "validateRecommendationInput
     (profile_body \<lparr>age = 17, income = 75000, dependents = 2, riskTolerance = ''Medium''\<rparr>)
     = Inl (Status400 ''Age must be an integer between 18 and 80'' None)
   \<and> validateRecommendationInput
       (profile_body \<lparr>age = 81, income = 75000, dependents = 2, riskTolerance = ''Medium''\<rparr>)
       = Inl (Status400 ''Age must be an integer between 18 and 80'' None)
   \<and> validateRecommendationInput
       (profile_body \<lparr>age = 30, income = 19999, dependents = 2, riskTolerance = ''Medium''\<rparr>)
       = Inl (Status400 ''Income must be an integer between 20,000 and 10,000,000'' None)
   \<and> validateRecommendationInput
       (profile_body \<lparr>age = 30, income = 75000, dependents = 11, riskTolerance = ''Medium''\<rparr>)
       = Inl (Status400 ''Dependents must be an integer between 0 and 10'' None)
   \<and> validateRecommendationInput
       (profile_body \<lparr>age = 30, income = 75000, dependents = 2, riskTolerance = ''Unknown''\<rparr>)
       = Inl (Status400 ''Risk tolerance must be Low, Medium, or High'' None)"
proof (intro conjI)
  show "validateRecommendationInput
     (profile_body \<lparr>age = 17, income = 75000, dependents = 2, riskTolerance = ''Medium''\<rparr>)
     = Inl (Status400 ''Age must be an integer between 18 and 80'' None)"
    by (subst validation_reports_first_failure, rule example_fields_nonzero)
      (simp_all add: required_fields_def profile_body_def absent_or_empty_def integer_between_def)
  show "validateRecommendationInput
       (profile_body \<lparr>age = 81, income = 75000, dependents = 2, riskTolerance = ''Medium''\<rparr>)
       = Inl (Status400 ''Age must be an integer between 18 and 80'' None)"
    by (subst validation_reports_first_failure, rule example_fields_nonzero)
      (simp_all add: required_fields_def profile_body_def absent_or_empty_def integer_between_def)
  show "validateRecommendationInput
       (profile_body \<lparr>age = 30, income = 19999, dependents = 2, riskTolerance = ''Medium''\<rparr>)
       = Inl (Status400 ''Income must be an integer between 20,000 and 10,000,000'' None)"
    by (subst validation_reports_first_failure, rule example_fields_nonzero)
      (simp_all add: required_fields_def profile_body_def absent_or_empty_def integer_between_def)
  show "validateRecommendationInput
       (profile_body \<lparr>age = 30, income = 75000, dependents = 11, riskTolerance = ''Medium''\<rparr>)
       = Inl (Status400 ''Dependents must be an integer between 0 and 10'' None)"
    by (subst validation_reports_first_failure, rule example_fields_nonzero)
      (simp_all add: required_fields_def profile_body_def absent_or_empty_def integer_between_def)
  show "validateRecommendationInput
       (profile_body \<lparr>age = 30, income = 75000, dependents = 2, riskTolerance = ''Unknown''\<rparr>)
       = Inl (Status400 ''Risk tolerance must be Low, Medium, or High'' None)"
    by (subst validation_reports_first_failure, rule example_fields_nonzero)
      (simp_all add: required_fields_def profile_body_def absent_or_empty_def integer_between_def)
qed

text \<open>
  The responses do not tell which field is missing, nor whether a type or a range check
  failed: a body without \<open>age\<close> and a body without \<open>riskTolerance\<close> get the same
  response, which lists all four names; a string for \<open>age\<close> and \<open>age = 17\<close> get the
  same response; and an age out of range is reported before a string in \<open>income\<close>.
\<close>

theorem validation_errors_not_field_identifying:
  "validateRecommendationInput
     ((profile_body \<lparr>age = 30, income = 75000, dependents = 2, riskTolerance = ''Medium''\<rparr>)
        (''age'' := JUndefined))
     = validateRecommendationInput
         ((profile_body \<lparr>age = 30, income = 75000, dependents = 2, riskTolerance = ''Medium''\<rparr>)
            (''riskTolerance'' := JUndefined))
   \<and> validateRecommendationInput
       ((profile_body \<lparr>age = 30, income = 75000, dependents = 2, riskTolerance = ''Medium''\<rparr>)
          (''age'' := JUndefined))
       = Inl (Status400 ''Missing required fields''
                (Some [''age'', ''income'', ''dependents'', ''riskTolerance'']))
   \<and> validateRecommendationInput
       ((profile_body \<lparr>age = 30, income = 75000, dependents = 2, riskTolerance = ''Medium''\<rparr>)
          (''age'' := JStr ''thirty''))
       = validateRecommendationInput
           (profile_body \<lparr>age = 17, income = 75000, dependents = 2, riskTolerance = ''Medium''\<rparr>)
   \<and> validateRecommendationInput
       ((profile_body \<lparr>age = 17, income = 75000, dependents = 2, riskTolerance = ''Medium''\<rparr>)
          (''income'' := JStr ''75000''))
       = Inl (Status400 ''Age must be an integer between 18 and 80'' None)"
  by (simp add: validateRecommendationInput_def profile_body_def)

section \<open>Persistence failures\<close>

lemma validated_body_profile:
  assumes "validateRecommendationInput b = Inr ()"
  obtains p where "body_profile b = Some p" and "valid_profile p" and "dependents p \<noteq> 0"
proof -
  from assms have nf: "\<not> falsy (b ''dependents'')"
    and a: "integer_between 18 80 (b ''age'')"
    and i: "integer_between 20000 10000000 (b ''income'')"
    and d: "integer_between 0 10 (b ''dependents'')"
    and r: "b ''riskTolerance'' = JStr ''Low'' \<or> b ''riskTolerance'' = JStr ''Medium''
              \<or> b ''riskTolerance'' = JStr ''High''"
    unfolding validate_chain by (simp_all split: if_splits)
  from a obtain x where x: "b ''age'' = JNum x" "of_int \<lfloor>x\<rfloor> = x" "18 \<le> x" "x \<le> 80"
    by (cases "b ''age''") (simp_all add: integer_between_def)
  from i obtain y where y: "b ''income'' = JNum y" "of_int \<lfloor>y\<rfloor> = y" "20000 \<le> y" "y \<le> 10000000"
    by (cases "b ''income''") (simp_all add: integer_between_def)
  from d obtain z where z: "b ''dependents'' = JNum z" "of_int \<lfloor>z\<rfloor> = z" "0 \<le> z" "z \<le> 10"
    by (cases "b ''dependents''") (simp_all add: integer_between_def)
  from r obtain s where s: "b ''riskTolerance'' = JStr s" "s = ''Low'' \<or> s = ''Medium'' \<or> s = ''High''"
    by auto
  let ?p = "\<lparr> age = \<lfloor>x\<rfloor>, income = \<lfloor>y\<rfloor>, dependents = \<lfloor>z\<rfloor>, riskTolerance = s \<rparr>"
  have "body_profile b = Some ?p"
    by (simp add: body_profile_def x y z s)
  moreover have "valid_profile ?p"
    using x(3,4) y(3,4) z(3,4) s(2) by (simp add: valid_profile_def le_floor_iff floor_le_iff) 
  moreover have "z \<noteq> 0" using nf z(1) by simp
  then have "dependents ?p \<noteq> 0" using z(2) by auto
  ultimately show ?thesis by (rule that)
qed

lemma example_body_validated:
  "validateRecommendationInput
     (profile_body \<lparr>age = 30, income = 75000, dependents = 2, riskTolerance = ''Medium''\<rparr>) = Inr ()"
  by (simp add: validateRecommendationInput_def profile_body_def)

lemma example_body_profile:
  "body_profile (profile_body \<lparr>age = 30, income = 75000, dependents = 2, riskTolerance = ''Medium''\<rparr>)
     = Some \<lparr>age = 30, income = 75000, dependents = 2, riskTolerance = ''Medium''\<rparr>"
  by (simp add: body_profile_def profile_body_def)

text \<open>
  Behind the middleware the storage pool cannot change the response: for every request
  that passed validation, whatever the pool does with the insert, the caller gets the
  success response with the engine's recommendation and the timestamp; when the pool
  rejects the query the error is only written to the console.
\<close>

lemma accepted_request_always_succeeds:
  assumes "validateRecommendationInput b = Inr ()"
  shows "\<exists>p. body_profile b = Some p \<and> valid_profile p
           \<and> (\<forall>q. fst (post_recommendation q now b) = Success (getRecommendation p) now)
           \<and> (\<forall>q e. (\<forall>s vs. q s vs = Rejected e) \<longrightarrow>
                  snd (post_recommendation q now b) = [Error (''Database error: '' @ e)])"
proof -
  from assms obtain p where p: "body_profile b = Some p" "valid_profile p"
    by (rule validated_body_profile)
  have "fst (post_recommendation q now b) = Success (getRecommendation p) now" for q
    by (simp add: post_recommendation_def assms p Let_def)
  moreover have "snd (post_recommendation q now b) = [Error (''Database error: '' @ e)]"
    if "\<forall>s vs. q s vs = Rejected e" for q e
    using that by (simp add: post_recommendation_def assms p Let_def store_submission_def)
  ultimately show ?thesis using p by blast
qed

lemma accepted_request_example:
  "validateRecommendationInput
     (profile_body \<lparr>age = 30, income = 75000, dependents = 2, riskTolerance = ''Medium''\<rparr>) = Inr ()
   \<and> post_recommendation (\<lambda>s vs. Rejected ''ECONNREFUSED'') ''2026-01-01T00:00:00.000Z''
        (profile_body \<lparr>age = 30, income = 75000, dependents = 2, riskTolerance = ''Medium''\<rparr>)
       = (Success
            (getRecommendation \<lparr>age = 30, income = 75000, dependents = 2, riskTolerance = ''Medium''\<rparr>)
            ''2026-01-01T00:00:00.000Z'',
          [Error ''Database error: ECONNREFUSED''])"
proof -
  let ?b = "profile_body \<lparr>age = 30, income = 75000, dependents = 2, riskTolerance = ''Medium''\<rparr>"
  let ?q = "\<lambda>(s::string) (vs::jsval list). Rejected ''ECONNREFUSED''"
  from accepted_request_always_succeeds [OF example_body_validated, of "''2026-01-01T00:00:00.000Z''"]
  have "fst (post_recommendation ?q ''2026-01-01T00:00:00.000Z'' ?b)
          = Success (getRecommendation \<lparr>age = 30, income = 75000, dependents = 2, riskTolerance = ''Medium''\<rparr>)
              ''2026-01-01T00:00:00.000Z''"
    and "snd (post_recommendation ?q ''2026-01-01T00:00:00.000Z'' ?b)
          = [Error (''Database error: '' @ ''ECONNREFUSED'')]"
    unfolding example_body_profile by auto
  then show ?thesis
    using example_body_validated by (simp add: prod_eq_iff)
qed

text \<open>
  In terms of profiles: a valid profile with at least one dependent gets the success
  response whatever the pool does.
\<close>

lemma body_profile_profile_body: "body_profile (profile_body p) = Some p"
  by (simp add: body_profile_def profile_body_def)

lemma valid_profile_with_dependents_succeeds:
  assumes "valid_profile p" and "dependents p \<noteq> 0"
  shows "fst (post_recommendation q now (profile_body p)) = Success (getRecommendation p) now"
proof -
  have "validateRecommendationInput (profile_body p) = Inr ()"
    using assms by (simp add: profile_body_validated_iff)
  from accepted_request_always_succeeds [OF this, of now]
  show ?thesis by (simp add: body_profile_profile_body)
qed

text \<open>
  C4: for every valid profile, when the storage append fails the caller still gets the
  success response with the same recommendation as when the append succeeds. The handler
  does not do that for a valid profile without dependents: the middleware answers the
  request below with "Missing required fields" before the engine and the pool are
  reached, with a pool that rejects every query as with one that stores the row.
\<close>

theorem zero_dependents_gets_no_success_response:
  "post_recommendation (\<lambda>s vs. Rejected ''ECONNREFUSED'') ''2026-01-01T00:00:00.000Z''
     (profile_body \<lparr>age = 30, income = 75000, dependents = 0, riskTolerance = ''Medium''\<rparr>)
     = (Status400 ''Missing required fields''
          (Some [''age'', ''income'', ''dependents'', ''riskTolerance'']), [])
   \<and> post_recommendation (\<lambda>s vs. Resolved [1]) ''2026-01-01T00:00:00.000Z''
       (profile_body \<lparr>age = 30, income = 75000, dependents = 0, riskTolerance = ''Medium''\<rparr>)
       = (Status400 ''Missing required fields''
            (Some [''age'', ''income'', ''dependents'', ''riskTolerance'']), [])"
  by (simp add: post_recommendation_def validateRecommendationInput_def profile_body_def)

theorem zero_dependents_gets_no_success_response_witness:
  "valid_profile \<lparr>age = 30, income = 75000, dependents = 0, riskTolerance = ''Medium''\<rparr>
   \<and> fst (post_recommendation (\<lambda>s vs. Rejected ''ECONNREFUSED'') ''2026-01-01T00:00:00.000Z''
          (profile_body \<lparr>age = 30, income = 75000, dependents = 0, riskTolerance = ''Medium''\<rparr>))
       \<noteq> Success
           (getRecommendation \<lparr>age = 30, income = 75000, dependents = 0, riskTolerance = ''Medium''\<rparr>)
           ''2026-01-01T00:00:00.000Z''"
  using zero_dependents_gets_no_success_response by (simp add: valid_profile_def)

section \<open>Properties of the engine\<close>

text \<open>
  C5: for every valid profile the coverage amount the engine computes equals steps 1 to 5
  of section 4.2 evaluated in exact arithmetic: ten times the income, plus 250000 for
  each dependent, times the age multiplier, times the risk multiplier, rounded half up
  to a multiple of 1000. The roundings of binary64 never change the result.
\<close>

theorem coverage_is_exact_arithmetic:
  assumes "valid_profile p"
  shows "coverageAmount p = exact_coverage p"
  using assms by (rule coverage_exact)

theorem coverage_is_exact_arithmetic_witness:
  "valid_profile \<lparr>age = 25, income = 50000, dependents = 0, riskTolerance = ''High''\<rparr>
   \<and> coverageAmount \<lparr>age = 25, income = 50000, dependents = 0, riskTolerance = ''High''\<rparr> = 780000"
  using coverage_is_exact_arithmetic [OF valid_example_2] valid_example_2 exact_example_2
  by simp

text \<open>
  C6: for every valid profile the age step multiplies the coverage by 1.2 exactly when
  \<open>age < 30\<close>, by 0.8 exactly when \<open>age > 50\<close>, and leaves it unchanged from 30 to 50
  inclusive, so at \<open>age = 30\<close> and \<open>age = 50\<close>; both products are computed without error.
\<close>

theorem age_adjustment_boundaries:
  assumes "valid_profile p"
  shows "age_adjust (age p) (base_coverage p) =
           (if age p < 30 then base_coverage p * (12 / 10)
            else if age p > 50 then base_coverage p * (8 / 10)
            else base_coverage p)"
  by (simp only: age_adjusted_exact [OF assms])
    (simp add: base_coverage_exact [OF assms] age_multiplier_def)

theorem age_adjustment_boundaries_witness:
  "valid_profile \<lparr>age = 30, income = 75000, dependents = 2, riskTolerance = ''Medium''\<rparr>
   \<and> age_adjust 30 (base_coverage \<lparr>age = 30, income = 75000, dependents = 2, riskTolerance = ''Medium''\<rparr>)
       = 1250000"
  using age_adjustment_boundaries [OF valid_example_1] valid_example_1
    base_coverage_exact [OF valid_example_1]
  by simp

text \<open>
  C7: for every valid profile the risk tolerance alone fixes the policy fields: High gives
  "Whole Life", 30 years and the factor 1.3; Low gives "Term Life", 15 years and the
  factor 0.8; Medium gives "Term Life", 20 years and no factor; each with its fixed
  explanation. The factor applies to the coverage as the dependents and age steps left
  it, and the product is then rounded to a multiple of 1000.
\<close>

theorem risk_tolerance_determines_policy:
  assumes "valid_profile p"
  shows "(riskTolerance p = ''High'' \<longrightarrow>
            type (getRecommendation p) = ''Whole Life''
          \<and> duration (getRecommendation p) = ''30 years''
          \<and> explanation (getRecommendation p)
              = ''Aggressive profile: higher coverage, longer term, whole life.''
          \<and> coverageAmount p
              = round_half_up_1000 (age_adjust (age p) (base_coverage p) * (13 / 10)))
       \<and> (riskTolerance p = ''Low'' \<longrightarrow>
            type (getRecommendation p) = ''Term Life''
          \<and> duration (getRecommendation p) = ''15 years''
          \<and> explanation (getRecommendation p)
              = ''Conservative profile: moderate coverage, shorter term.''
          \<and> coverageAmount p
              = round_half_up_1000 (age_adjust (age p) (base_coverage p) * (8 / 10)))
       \<and> (riskTolerance p = ''Medium'' \<longrightarrow>
            type (getRecommendation p) = ''Term Life''
          \<and> duration (getRecommendation p) = ''20 years''
          \<and> explanation (getRecommendation p)
              = ''Balanced profile: standard coverage and term.''
          \<and> coverageAmount p
              = round_half_up_1000 (age_adjust (age p) (base_coverage p)))"
proof (intro conjI impI)
  assume h: "riskTolerance p = ''High''"
  show "type (getRecommendation p) = ''Whole Life''"
    and "duration (getRecommendation p) = ''30 years''"
    and "explanation (getRecommendation p)
           = ''Aggressive profile: higher coverage, longer term, whole life.''"
    unfolding getRecommendation_fields engine_state_High [OF h] by (simp_all add: show_nat_30)
  show "coverageAmount p = round_half_up_1000 (age_adjust (age p) (base_coverage p) * (13 / 10))"
    unfolding coverage_after_age [OF assms] h risk_multiplier_def by simp
next
  assume l: "riskTolerance p = ''Low''"
  show "type (getRecommendation p) = ''Term Life''"
    and "duration (getRecommendation p) = ''15 years''"
    and "explanation (getRecommendation p)
           = ''Conservative profile: moderate coverage, shorter term.''"
    unfolding getRecommendation_fields engine_state_Low [OF l] by (simp_all add: show_nat_15)
  show "coverageAmount p = round_half_up_1000 (age_adjust (age p) (base_coverage p) * (8 / 10))"
    unfolding coverage_after_age [OF assms] l risk_multiplier_def by simp
next
  assume m: "riskTolerance p = ''Medium''"
  show "type (getRecommendation p) = ''Term Life''"
    and "duration (getRecommendation p) = ''20 years''"
    and "explanation (getRecommendation p)
           = ''Balanced profile: standard coverage and term.''"
    unfolding getRecommendation_fields engine_state_Medium [OF m] by (simp_all add: show_nat_20)
  show "coverageAmount p = round_half_up_1000 (age_adjust (age p) (base_coverage p))"
    unfolding coverage_after_age [OF assms] m risk_multiplier_def by simp
qed

theorem risk_tolerance_determines_policy_witness:
  "valid_profile \<lparr>age = 25, income = 50000, dependents = 0, riskTolerance = ''High''\<rparr>
   \<and> type (getRecommendation \<lparr>age = 25, income = 50000, dependents = 0, riskTolerance = ''High''\<rparr>)
       = ''Whole Life''
   \<and> duration (getRecommendation \<lparr>age = 25, income = 50000, dependents = 0, riskTolerance = ''High''\<rparr>)
       = ''30 years''"
  using risk_tolerance_determines_policy [OF valid_example_2] valid_example_2 by simp

text \<open>
  C8: for every valid profile the coverage amount is an integer divisible by 1000.
\<close>

theorem coverage_divisible_by_1000:
  assumes "valid_profile p"
  shows "of_int \<lfloor>coverageAmount p\<rfloor> = coverageAmount p \<and> \<lfloor>coverageAmount p\<rfloor> mod 1000 = 0"
proof -
  define K where "K = \<lfloor>(of_int (income p) * 10 + of_int (dependents p) * 250000)
          * age_multiplier (age p) * risk_multiplier (riskTolerance p) / 1000 + 1 / 2\<rfloor>"
  have "coverageAmount p = of_int (K * 1000)"
    unfolding coverage_exact [OF assms] exact_coverage_def round_half_up_1000_def K_def by simp
  then show ?thesis by (simp only: floor_of_int) simp
qed

theorem coverage_divisible_by_1000_witness:
  "valid_profile \<lparr>age = 25, income = 50000, dependents = 0, riskTolerance = ''High''\<rparr>
   \<and> \<lfloor>coverageAmount \<lparr>age = 25, income = 50000, dependents = 0, riskTolerance = ''High''\<rparr>\<rfloor> mod 1000 = 0"
  using coverage_divisible_by_1000 [OF valid_example_2] valid_example_2 by simp

text \<open>
  C9: for every valid profile with fewer than 10 dependents, one more dependent, with age,
  income and risk tolerance unchanged, never gives a smaller coverage amount.
\<close>

theorem coverage_monotone_in_dependents:
  assumes "valid_profile p" and "dependents p < 10"
  shows "coverageAmount p \<le> coverageAmount (p\<lparr>dependents := dependents p + 1\<rparr>)"
proof -
  let ?q = "p\<lparr>dependents := dependents p + 1\<rparr>"
  have q: "valid_profile ?q" using assms by (simp add: valid_profile_def)
  let ?m = "age_multiplier (age p) * risk_multiplier (riskTolerance p)"
  have m: "0 \<le> ?m" by (intro mult_nonneg_nonneg multipliers_nonneg)
  have "(of_int (income p) * 10 + of_int (dependents p) * 250000) * ?m
          \<le> (of_int (income p) * 10 + of_int (dependents p + 1) * 250000) * ?m"
    using m by (intro mult_right_mono) simp_all
  then have "exact_coverage p \<le> exact_coverage ?q"
    unfolding exact_coverage_def by (intro round_half_up_1000_mono) (simp add: mult.assoc)
  then show ?thesis
    by (simp only: coverage_exact [OF assms(1)] coverage_exact [OF q])
qed

theorem coverage_monotone_in_dependents_witness:
  "valid_profile \<lparr>age = 30, income = 75000, dependents = 2, riskTolerance = ''Medium''\<rparr>
   \<and> (2::int) < 10
   \<and> coverageAmount \<lparr>age = 30, income = 75000, dependents = 2, riskTolerance = ''Medium''\<rparr>
       \<le> coverageAmount \<lparr>age = 30, income = 75000, dependents = 3, riskTolerance = ''Medium''\<rparr>"
  using coverage_monotone_in_dependents [OF valid_example_1] valid_example_1 by simp

text \<open>
  C10: the engine returns a result for every string: for a risk tolerance other than
  Low, Medium and High the \<open>switch\<close> changes nothing, and the result has type
  "Term Life", 20 years, an empty explanation and the coverage without a risk factor,
  which is the result for Medium with the explanation emptied.
\<close>

theorem unknown_risk_tolerance_keeps_defaults:
  assumes "riskTolerance p \<noteq> ''Low''" and "riskTolerance p \<noteq> ''Medium''"
    and "riskTolerance p \<noteq> ''High''"
  shows "getRecommendation p =
           \<lparr> type = ''Term Life'',
             coverage = ''$'' @ toLocaleString \<lfloor>round_coverage (age_adjust (age p) (base_coverage p))\<rfloor>,
             duration = ''20 years'',
             explanation = [] \<rparr>
         \<and> getRecommendation p
             = (getRecommendation (p\<lparr>riskTolerance := ''Medium''\<rparr>))\<lparr>explanation := []\<rparr>"
proof -
  have m: "riskTolerance (p\<lparr>riskTolerance := ''Medium''\<rparr>) = ''Medium''" by simp
  have b: "base_coverage (p\<lparr>riskTolerance := ''Medium''\<rparr>) = base_coverage p"
    by (simp add: base_coverage_def Let_def)
  show ?thesis
    unfolding getRecommendation_fields coverageAmount_def engine_state_other [OF assms]
      engine_state_Medium [OF m] b
    by (simp add: show_nat_20)
qed

theorem unknown_risk_tolerance_keeps_defaults_witness:
  "getRecommendation \<lparr>age = 30, income = 75000, dependents = 2, riskTolerance = ''Unknown''\<rparr>
     = (getRecommendation \<lparr>age = 30, income = 75000, dependents = 2, riskTolerance = ''Medium''\<rparr>)
         \<lparr>explanation := []\<rparr>
   \<and> type (getRecommendation \<lparr>age = 30, income = 75000, dependents = 2, riskTolerance = ''Unknown''\<rparr>)
       = ''Term Life''
   \<and> duration (getRecommendation \<lparr>age = 30, income = 75000, dependents = 2, riskTolerance = ''Unknown''\<rparr>)
       = ''20 years''
   \<and> explanation (getRecommendation \<lparr>age = 30, income = 75000, dependents = 2, riskTolerance = ''Unknown''\<rparr>)
       = []"
proof -
  let ?p = "\<lparr>age = 30, income = 75000, dependents = 2, riskTolerance = ''Unknown''\<rparr>"
  have ab: "getRecommendation ?p =
             \<lparr> type = ''Term Life'',
               coverage = ''$'' @ toLocaleString \<lfloor>round_coverage (age_adjust (age ?p) (base_coverage ?p))\<rfloor>,
               duration = ''20 years'',
               explanation = [] \<rparr>
           \<and> getRecommendation ?p
               = (getRecommendation (?p\<lparr>riskTolerance := ''Medium''\<rparr>))\<lparr>explanation := []\<rparr>"
    by (rule unknown_risk_tolerance_keeps_defaults) simp_all
  note a = conjunct1 [OF ab] and b = conjunct2 [OF ab]
  from b have "getRecommendation ?p
      = (getRecommendation \<lparr>age = 30, income = 75000, dependents = 2, riskTolerance = ''Medium''\<rparr>)
          \<lparr>explanation := []\<rparr>"
    by simp
  moreover have "type (getRecommendation ?p) = ''Term Life''"
    and "duration (getRecommendation ?p) = ''20 years''"
    and "explanation (getRecommendation ?p) = []"
    by (simp_all only: a recommendation.simps)
  ultimately show ?thesis by (intro conjI)
qed

end
